theory Spec2Isabelle
  imports Main "HOL-Library.Word" "HOL-Library.Sublist"
begin

section \<open>Python values used by the serial link\<close>

text \<open>
  The threaded serial port of \<^verbatim>\<open>LFLib.py\<close> (class \<^verbatim>\<open>sPort\<close>, function \<^verbatim>\<open>serPort\<close>)
  works on Python \<^verbatim>\<open>bytes\<close> objects and Python strings. A \<^verbatim>\<open>bytes\<close> object is a list
  of 8-bit words; a Python \<^verbatim>\<open>str\<close> is a list of Unicode code points.
\<close>

type_synonym byte = "8 word"
type_synonym bytes = "byte list"
type_synonym pystr = "nat list"

definition str_lit :: "string \<Rightarrow> pystr" where
  "str_lit cs = map of_char cs"

text \<open>\<^verbatim>\<open>chr(b)\<close> of a byte is the one-character string of its code point.\<close>

definition chr_py :: "byte \<Rightarrow> pystr" where
  "chr_py b = [unat b]"

text \<open>The string literal \<^verbatim>\<open>"\n"\<close> and the byte it is compared with.\<close>

definition newline :: pystr where
  "newline = [10]"

definition LF :: byte where
  "LF = 10"

text \<open>\<^verbatim>\<open>readB\<close> returns either a string (its sentinel) or a \<^verbatim>\<open>bytes\<close> object.\<close>

datatype pyval = PyStr pystr | PyBytes bytes

definition not_enough_data :: pystr where
  "not_enough_data = str_lit ''not enough data''"

definition not_a_string :: pystr where
  "not_a_string = str_lit ''Read data isn't a string''"

text \<open>
  Python slicing \<^verbatim>\<open>xs[lo:hi]\<close> with integer bounds: a negative bound counts from the
  end, and every bound is clamped into \<open>0..len(xs)\<close>; slicing never raises.
\<close>

definition py_index :: "nat \<Rightarrow> int \<Rightarrow> nat" where
  "py_index n i = (if i < 0 then nat (max 0 (int n + i)) else min n (nat i))"

definition py_slice :: "'a list \<Rightarrow> int \<Rightarrow> int \<Rightarrow> 'a list" where
  "py_slice xs lo hi =
     (let a = py_index (length xs) lo; b = py_index (length xs) hi
      in take (b - a) (drop a xs))"

subsection \<open>\<^verbatim>\<open>bytes.decode()\<close> and \<^verbatim>\<open>str.encode()\<close>: strict UTF-8\<close>

text \<open>
  \<^verbatim>\<open>readL\<close> calls \<^verbatim>\<open>.decode()\<close> and \<^verbatim>\<open>writeL\<close> calls \<^verbatim>\<open>.encode()\<close> with Python's
  defaults, that is UTF-8 with strict error handling. The decoder accepts exactly the
  well-formed byte sequences of the Unicode standard (no overlong forms, no surrogates,
  nothing above U+10FFFF); \<open>None\<close> stands for \<^verbatim>\<open>UnicodeDecodeError\<close>. The encoder
  refuses surrogate code points; \<open>None\<close> stands for \<^verbatim>\<open>UnicodeEncodeError\<close>.
\<close>

definition cont_byte :: "nat \<Rightarrow> bool" where
  "cont_byte b = (128 \<le> b \<and> b \<le> 191)"

fun utf8_decode_nat :: "nat list \<Rightarrow> pystr option" where
  "utf8_decode_nat [] = Some []"
| "utf8_decode_nat (b0 # bs) =
     (if b0 < 128 then map_option (Cons b0) (utf8_decode_nat bs)
      else if 194 \<le> b0 \<and> b0 \<le> 223 then
        (case bs of
           b1 # r \<Rightarrow>
             if cont_byte b1
             then map_option (Cons ((b0 - 192) * 64 + (b1 - 128))) (utf8_decode_nat r)
             else None
         | _ \<Rightarrow> None)
      else if 224 \<le> b0 \<and> b0 \<le> 239 then
        (case bs of
           b1 # b2 # r \<Rightarrow>
             if (if b0 = 224 then 160 else 128) \<le> b1 \<and> b1 \<le> (if b0 = 237 then 159 else 191)
                \<and> cont_byte b2
             then map_option (Cons ((b0 - 224) * 4096 + (b1 - 128) * 64 + (b2 - 128)))
                    (utf8_decode_nat r)
             else None
         | _ \<Rightarrow> None)
      else if 240 \<le> b0 \<and> b0 \<le> 244 then
        (case bs of
           b1 # b2 # b3 # r \<Rightarrow>
             if (if b0 = 240 then 144 else 128) \<le> b1 \<and> b1 \<le> (if b0 = 244 then 143 else 191)
                \<and> cont_byte b2 \<and> cont_byte b3
             then map_option
                    (Cons ((b0 - 240) * 262144 + (b1 - 128) * 4096 + (b2 - 128) * 64 + (b3 - 128)))
                    (utf8_decode_nat r)
             else None
         | _ \<Rightarrow> None)
      else None)"

definition decode :: "bytes \<Rightarrow> pystr option" where
  "decode bs = utf8_decode_nat (map unat bs)"

definition utf8_encode_cp :: "nat \<Rightarrow> nat list option" where
  "utf8_encode_cp c =
     (if c < 128 then Some [c]
      else if c < 2048 then Some [192 + c div 64, 128 + c mod 64]
      else if 55296 \<le> c \<and> c \<le> 57343 then None
      else if c < 65536 then
        Some [224 + c div 4096, 128 + (c div 64) mod 64, 128 + c mod 64]
      else if c < 1114112 then
        Some [240 + c div 262144, 128 + (c div 4096) mod 64, 128 + (c div 64) mod 64,
              128 + c mod 64]
      else None)"

fun utf8_encode_nat :: "pystr \<Rightarrow> nat list option" where
  "utf8_encode_nat [] = Some []"
| "utf8_encode_nat (c # cs) =
     (case utf8_encode_cp c of
        None \<Rightarrow> None
      | Some b \<Rightarrow> map_option (\<lambda>r. b @ r) (utf8_encode_nat cs))"

definition encode :: "pystr \<Rightarrow> bytes option" where
  "encode s = map_option (map of_nat) (utf8_encode_nat s)"

section \<open>The transport: serial devices of the host\<close>

text \<open>
  The exceptions that occur. In pyserial \<^verbatim>\<open>SerialException\<close> is a subclass of
  \<^verbatim>\<open>OSError\<close>, so \<^verbatim>\<open>except OSError\<close> catches both; \<open>OSError\<close> below stands for
  every other instance of that class.
\<close>

datatype exn =
  SerialException | OSError | SerialDisconnect | NameError | UnicodeEncodeError | OtherException

definition is_OSError :: "exn \<Rightarrow> bool" where
  "is_OSError x = (x = SerialException \<or> x = OSError)"

text \<open>
  An open \<^verbatim>\<open>serial.Serial\<close> object: the device name it was opened with, the timeout it
  was given (\<open>None\<close> when the constructor was called without one), and what this program
  has done with it so far.
\<close>

datatype io = Wr bytes | Rd

record port =
  pname :: string
  ptimeout :: "int option"
  hist :: "io list"

text \<open>
  The host: \<^verbatim>\<open>os.name\<close>, the device names \<^verbatim>\<open>serial.tools.list_ports.comports()\<close>
  lists, and how each device answers. Opening a device and writing to it may raise;
  \<^verbatim>\<open>readline\<close> yields a line (possibly empty, after the timeout) or raises. An answer
  may depend on everything done with the device before.
\<close>

record env =
  os_name :: string
  comports :: "string list"
  open_exn :: "string \<Rightarrow> exn option"
  write_exn :: "string \<Rightarrow> io list \<Rightarrow> bytes \<Rightarrow> exn option"
  readline_res :: "string \<Rightarrow> io list \<Rightarrow> exn + bytes"

definition Serial_open :: "env \<Rightarrow> string \<Rightarrow> int option \<Rightarrow> exn + port" where
  "Serial_open e name tmo =
     (case open_exn e name of
        Some x \<Rightarrow> Inl x
      | None \<Rightarrow> Inr \<lparr>pname = name, ptimeout = tmo, hist = []\<rparr>)"

definition port_write :: "env \<Rightarrow> port \<Rightarrow> bytes \<Rightarrow> exn + port" where
  "port_write e p data =
     (case write_exn e (pname p) (hist p) data of
        Some x \<Rightarrow> Inl x
      | None \<Rightarrow> Inr (p\<lparr>hist := hist p @ [Wr data]\<rparr>))"

definition port_readline :: "env \<Rightarrow> port \<Rightarrow> exn + (bytes \<times> port)" where
  "port_readline e p =
     (case readline_res e (pname p) (hist p) of
        Inl x \<Rightarrow> Inl x
      | Inr line \<Rightarrow> Inr (line, p\<lparr>hist := hist p @ [Rd]\<rparr>))"

section \<open>The receive buffer of \<^verbatim>\<open>sPort\<close>\<close>

text \<open>
  The nested class \<^verbatim>\<open>sPort.Buffer\<close>: the port, the received bytes, the capacity, the
  link state flag and the terminator stored by the constructor (whose default
  \<^verbatim>\<open>"\n"\<close> is the one-byte sequence \<open>[LF]\<close>). The dummy figure only serves the GUI.
\<close>

record Buffer =
  port :: port
  content :: bytes
  size :: int
  disconnected :: bool
  terminator :: bytes

text \<open>
  \<^verbatim>\<open>readStoreBuffer\<close>: the chunk is appended if it fits and dropped otherwise; then
  \<^verbatim>\<open>self.handleData()\<close> runs. The registered callback is the parameter \<open>h\<close>; it
  sees the buffer after the store, and whatever it yields is the outcome.
\<close>

definition storeData :: "Buffer \<Rightarrow> bytes \<Rightarrow> Buffer" where
  "storeData s data =
     (if int (length (content s)) + int (length data) \<le> size s
      then s\<lparr>content := content s @ data\<rparr>
      else s)"

definition readStoreBuffer :: "(Buffer \<Rightarrow> 'r) \<Rightarrow> Buffer \<Rightarrow> bytes \<Rightarrow> 'r" where
  "readStoreBuffer h s data = h (storeData s data)"

text \<open>\<^verbatim>\<open>readB(bytes)\<close>: the sentinel string, or the first bytes, which leave the buffer.\<close>

definition readB :: "Buffer \<Rightarrow> int \<Rightarrow> pyval \<times> Buffer" where
  "readB s n =
     (let numBytes = int (length (content s)) in
      if numBytes < n then (PyStr not_enough_data, s)
      else (PyBytes (py_slice (content s) 0 n),
            s\<lparr>content := py_slice (content s) n (int (length (content s)))\<rparr>))"

text \<open>
  \<^verbatim>\<open>readL\<close>: the \<^verbatim>\<open>for\<close> loop over \<^verbatim>\<open>range(numBytes)\<close> returns at the first index
  whose byte is the newline character; \<open>readL_scan\<close> is that loop over the list of
  indices, yielding the index at which the loop body returns.
\<close>

fun readL_scan :: "bytes \<Rightarrow> nat list \<Rightarrow> nat option" where
  "readL_scan c [] = None"
| "readL_scan c (i # rest) =
     (if chr_py (c ! i) = newline then Some i else readL_scan c rest)"

definition readL :: "Buffer \<Rightarrow> pystr \<times> Buffer" where
  "readL s =
     (let numBytes = length (content s) in
      case readL_scan (content s) [0..<numBytes] of
        Some newLineIndex \<Rightarrow>
          (let retVal = (case decode (py_slice (content s) 0 (int newLineIndex)) of
                           Some t \<Rightarrow> t
                         | None \<Rightarrow> not_a_string)
           in (retVal,
               s\<lparr>content := py_slice (content s) (int newLineIndex + 1)
                               (int (length (content s)))\<rparr>))
      | None \<Rightarrow> (not_enough_data, s))"

text \<open>
  \<^verbatim>\<open>clearBuffer(clearLine)\<close>. The \<^verbatim>\<open>if\<close> statement: with \<^verbatim>\<open>clearLine\<close> the loop runs
  over \<^verbatim>\<open>range(numBytes-1, -1, -1)\<close> and stops at the first newline byte it meets, that
  is the last one of the buffer.
\<close>

definition clearBuffer_body :: "Buffer \<Rightarrow> bool \<Rightarrow> Buffer" where
  "clearBuffer_body s clearLine =
     (if clearLine then
        (let numBytes = length (content s) in
         case readL_scan (content s) (rev [0..<numBytes]) of
           Some newLineIndex \<Rightarrow>
             s\<lparr>content := py_slice (content s) (int newLineIndex + 1)
                             (int (length (content s)))\<rparr>
         | None \<Rightarrow> s)
      else s\<lparr>content := []\<rparr>)"

text \<open>
  Before that statement \<^verbatim>\<open>clearBuffer\<close> calls
  \<^verbatim>\<open>self.buffer.dummyFig.canvas.flush_events()\<close> and \<^verbatim>\<open>window.update_idletasks()\<close>, which
  let the GUI loop handle its pending events. Among them can be chunks received earlier,
  whose \<^verbatim>\<open>readStoreBuffer\<close> \<^verbatim>\<open>data_received\<close> has scheduled with \<^verbatim>\<open>window.after(0, ...)\<close>.
  The parameter \<open>flush\<close> is what the pending events do to the buffer; it is the identity
  when none is pending. (\<^verbatim>\<open>window\<close> is the application's Tk root, which the
  application binds before it uses the port.)
\<close>

definition clearBuffer :: "(Buffer \<Rightarrow> Buffer) \<Rightarrow> Buffer \<Rightarrow> bool \<Rightarrow> Buffer" where
  "clearBuffer flush s clearLine = clearBuffer_body (flush s) clearLine"

section \<open>Writing to the port\<close>

text \<open>
  What the functions do besides changing the buffer is recorded as a list of events:
  a line printed by \<^verbatim>\<open>pln\<close>, a call of the port's \<^verbatim>\<open>write\<close> (device name and data),
  a call of \<^verbatim>\<open>window.after\<close> (delay and callback), the start of a reader thread.
\<close>

datatype callback = Reopen

datatype event =
  Print string | PortWrite string bytes | After int callback | ReaderStart port

definition closed_warning :: string where
  "closed_warning = ''Where are you tryinng to write to? The port is closed!''"

definition write_warning :: string where
  "write_warning = ''Error in writing (the port is probably closed but hasn't noticed yet)''"

text \<open>
  \<open>write_py\<close> is the method \<^verbatim>\<open>write\<close>. The \<^verbatim>\<open>try\<close> statement shared by \<^verbatim>\<open>write\<close> and \<^verbatim>\<open>writeL\<close>:
  \<^verbatim>\<open>self.buffer.port.write(data)\<close> under \<^verbatim>\<open>except OSError\<close>, which prints a warning. Any
  other exception leaves the function. The first component of the result is the
  exception that leaves the call, \<open>None\<close> when it returns.
\<close>

definition try_port_write :: "env \<Rightarrow> Buffer \<Rightarrow> bytes \<Rightarrow> exn option \<times> Buffer \<times> event list" where
  "try_port_write e s data =
     (case port_write e (port s) data of
        Inr p \<Rightarrow> (None, s\<lparr>port := p\<rparr>, [PortWrite (pname (port s)) data])
      | Inl x \<Rightarrow>
          if is_OSError x
          then (None, s, [PortWrite (pname (port s)) data, Print write_warning])
          else (Some x, s, [PortWrite (pname (port s)) data]))"

definition write_py :: "env \<Rightarrow> Buffer \<Rightarrow> bytes \<Rightarrow> exn option \<times> Buffer \<times> event list" where
  "write_py e s data =
     (if disconnected s then (None, s, [Print closed_warning])
      else try_port_write e s data)"

text \<open>
  \<^verbatim>\<open>writeL(s)\<close> writes \<^verbatim>\<open>(s + '\n').encode()\<close>; the encoding happens inside the
  \<^verbatim>\<open>try\<close>, and its \<^verbatim>\<open>UnicodeEncodeError\<close> is no \<^verbatim>\<open>OSError\<close>.
\<close>

definition writeL :: "env \<Rightarrow> Buffer \<Rightarrow> pystr \<Rightarrow> exn option \<times> Buffer \<times> event list" where
  "writeL e s str =
     (if disconnected s then (None, s, [Print closed_warning])
      else case encode (str @ newline) of
             None \<Rightarrow> (Some UnicodeEncodeError, s, [])
           | Some data \<Rightarrow> try_port_write e s data)"

section \<open>Opening a port: \<^verbatim>\<open>serPort\<close>\<close>

definition open_warning :: string where
  "open_warning = ''Could not open the serial port! Try un- and replugging the device or providing the correct port name.''"

definition dev_prefix :: "env \<Rightarrow> string" where
  "dev_prefix e =
     (if os_name e = ''nt'' then [] else if os_name e = ''posix'' then ''/dev/'' else [])"

text \<open>\<^verbatim>\<open>port.write(x); port.readline()\<close>, with the line read and the port afterwards.\<close>

definition write_readline :: "env \<Rightarrow> port \<Rightarrow> bytes \<Rightarrow> exn + (bytes \<times> port)" where
  "write_readline e p x =
     (case port_write e p x of
        Inl err \<Rightarrow> Inl err
      | Inr p' \<Rightarrow> port_readline e p')"

text \<open>
  The body of the \<^verbatim>\<open>while\<close> loop for the candidate \<^verbatim>\<open>ports[portNum]\<close>: open it with
  \<^verbatim>\<open>timeout=2\<close>, send the optional command and drop one line, send the optional
  question and compare the line read with the expected answer. The result is the new
  value of \<^verbatim>\<open>correctPort\<close> and the port, or the exception raised on the way.
\<close>

definition tryCandidate ::
  "env \<Rightarrow> bytes option \<Rightarrow> bytes option \<Rightarrow> bytes option \<Rightarrow> nat \<Rightarrow> exn + (bool \<times> port)" where
  "tryCandidate e command question answer portNum =
     (case Serial_open e (dev_prefix e @ comports e ! portNum) (Some 2) of
        Inl err \<Rightarrow> Inl err
      | Inr port0 \<Rightarrow>
          (case (case command of
                   None \<Rightarrow> Inr port0
                 | Some c \<Rightarrow> map_sum id snd (write_readline e port0 c)) of
             Inl err \<Rightarrow> Inl err
           | Inr port1 \<Rightarrow>
               (case question of
                  None \<Rightarrow> Inr (True, port1)
                | Some q \<Rightarrow>
                    (case write_readline e port1 q of
                       Inl err \<Rightarrow> Inl err
                     | Inr (ret, port2) \<Rightarrow> Inr (Some ret = answer, port2)))))"

text \<open>
  The loop \<^verbatim>\<open>while not correctPort and portNum < len(ports)\<close>. The body only runs for
  \<open>portNum < length (comports e)\<close>, so the list is never read out of range.
\<close>

function serPort_loop ::
  "env \<Rightarrow> bytes option \<Rightarrow> bytes option \<Rightarrow> bytes option \<Rightarrow> bool \<Rightarrow> nat \<Rightarrow> port option
   \<Rightarrow> exn + (bool \<times> port option)" where
  "serPort_loop e command question answer correctPort portNum prt =
     (if \<not> correctPort \<and> portNum < length (comports e) then
        (case tryCandidate e command question answer portNum of
           Inl err \<Rightarrow> Inl err
         | Inr (correctPort', p) \<Rightarrow>
             serPort_loop e command question answer correctPort' (portNum + 1) (Some p))
      else Inr (correctPort, prt))"
  by pat_completeness auto
termination
  by (relation "measure (\<lambda>(e, command, question, answer, correctPort, portNum, prt).
        length (comports e) - portNum)") auto

declare serPort_loop.simps [simp del]

text \<open>\<^verbatim>\<open>if final != None: port.write(final); port.readline()\<close>, after the loop.\<close>

definition finalise :: "env \<Rightarrow> bytes option \<Rightarrow> port \<Rightarrow> exn + port" where
  "finalise e final p =
     (case final of
        None \<Rightarrow> Inr p
      | Some f \<Rightarrow> map_sum id snd (write_readline e p f))"

text \<open>
  The \<^verbatim>\<open>try\<close> block of \<^verbatim>\<open>serPort\<close>. After the loop \<^verbatim>\<open>port\<close> is bound whenever
  \<^verbatim>\<open>correctPort\<close> holds; the remaining case would be Python's unbound local.
\<close>

definition serPort_body ::
  "env \<Rightarrow> string \<Rightarrow> bytes option \<Rightarrow> bytes option \<Rightarrow> bytes option \<Rightarrow> bytes option \<Rightarrow> exn + port" where
  "serPort_body e name command question answer final =
     (if name = ''Auto'' then
        (if length (comports e) > 1 then
           (case serPort_loop e command question answer False 1 None of
              Inl err \<Rightarrow> Inl err
            | Inr (correctPort, prt) \<Rightarrow>
                if \<not> correctPort then Inl SerialDisconnect
                else (case prt of
                        None \<Rightarrow> Inl OtherException
                      | Some p \<Rightarrow> finalise e final p))
         else Inl SerialDisconnect)
      else Serial_open e name None)"

text \<open>
  \<^verbatim>\<open>except (serial.serialutil.SerialException, SerialDisconnect)\<close>: the message is
  printed and \<^verbatim>\<open>SerialDisconnect\<close> is raised; other exceptions pass through.
\<close>

definition serPort_except :: "exn + port \<Rightarrow> (exn + port) \<times> event list" where
  "serPort_except r =
     (case r of
        Inr p \<Rightarrow> (Inr p, [])
      | Inl err \<Rightarrow>
          if err = SerialException \<or> err = SerialDisconnect
          then (Inl SerialDisconnect, [Print open_warning])
          else (Inl err, []))"

definition serPort ::
  "env \<Rightarrow> string \<Rightarrow> bytes option \<Rightarrow> bytes option \<Rightarrow> bytes option \<Rightarrow> bytes option
   \<Rightarrow> (exn + port) \<times> event list" where
  "serPort e name command question answer final =
     serPort_except (serPort_body e name command question answer final)"










section \<open>Losing the connection: \<^verbatim>\<open>connection_lost\<close> and \<^verbatim>\<open>reopen\<close>\<close>

definition lost_message :: string where
  "lost_message = ''Serial port disconnected. Trying to reconnect...''"

text \<open>
  \<^verbatim>\<open>reopen\<close> calls \<^verbatim>\<open>Serial("/dev/" + ports[1].name)\<close>. The parameter \<open>ctor\<close> is what
  the global name \<^verbatim>\<open>Serial\<close> evaluates to when called. An exception other than
  \<^verbatim>\<open>SerialException\<close> leaves \<^verbatim>\<open>reopen\<close> at once.
\<close>

definition reopen ::
  "(string \<Rightarrow> exn + port) \<Rightarrow> env \<Rightarrow> Buffer \<Rightarrow> exn option \<times> Buffer \<times> event list" where
  "reopen ctor e s =
     (case (if length (comports e) > 1
            then map_sum id Some (ctor (''/dev/'' @ comports e ! 1))
            else Inr None) of
        Inl err \<Rightarrow>
          if err = SerialException then (None, s, [After 1 Reopen]) else (Some err, s, [])
      | Inr None \<Rightarrow> (None, s, [After 1 Reopen])
      | Inr (Some newPort) \<Rightarrow>
          (None, s\<lparr>port := newPort, disconnected := False\<rparr>, [ReaderStart newPort]))"

text \<open>
  \<^verbatim>\<open>connection_lost\<close>: print, call \<^verbatim>\<open>self.reopen()\<close>, and only then set
  \<^verbatim>\<open>self.buffer.disconnected = True\<close>.
\<close>

definition connection_lost ::
  "(string \<Rightarrow> exn + port) \<Rightarrow> env \<Rightarrow> Buffer \<Rightarrow> exn option \<times> Buffer \<times> event list" where
  "connection_lost ctor e s =
     (case reopen ctor e s of
        (Some err, s', evs) \<Rightarrow> (Some err, s', Print lost_message # evs)
      | (None, s', evs) \<Rightarrow> (None, s'\<lparr>disconnected := True\<rparr>, Print lost_message # evs))"

text \<open>
  The module imports \<^verbatim>\<open>serial\<close>, \<^verbatim>\<open>ReaderThread\<close> and \<^verbatim>\<open>Protocol\<close> and nowhere binds the
  name \<^verbatim>\<open>Serial\<close> (\<^verbatim>\<open>serPort\<close> writes \<^verbatim>\<open>serial.Serial\<close>): calling it raises
  \<^verbatim>\<open>NameError\<close>. \<open>Serial_class e\<close> is the class \<^verbatim>\<open>serial.Serial\<close>, for comparison.
\<close>

definition Serial_unbound :: "string \<Rightarrow> exn + port" where
  "Serial_unbound name = Inl NameError"

definition Serial_class :: "env \<Rightarrow> string \<Rightarrow> exn + port" where
  "Serial_class e name = Serial_open e name None"

definition disconnected_query :: "Buffer \<Rightarrow> bool" where
  "disconnected_query s = disconnected s"

text \<open>
  The constructor \<^verbatim>\<open>sPort(name, terminatorV)\<close>: the buffer object exists once, with the
  class; the constructor opens the port with \<^verbatim>\<open>serPort(name)\<close> and stores the port and
  the terminator in it.
\<close>

definition sPort_init :: "env \<Rightarrow> Buffer \<Rightarrow> string \<Rightarrow> bytes \<Rightarrow> exn + Buffer" where
  "sPort_init e s name terminatorV =
     (case fst (serPort e name None None None None) of
        Inl err \<Rightarrow> Inl err
      | Inr p \<Rightarrow> Inr (s\<lparr>port := p, terminator := terminatorV\<rparr>))"

section \<open>The terminator as the specification reads it\<close>

text \<open>
  The specification speaks of the configured terminator, a byte sequence. These two
  definitions follow its words, for comparison with the code: \<open>after_last t buf\<close> is
  the part of \<open>buf\<close> strictly after the last occurrence of \<open>t\<close>, if \<open>t\<close> occurs, and
  \<open>clear_to_last_line\<close> keeps that part, or everything when \<open>t\<close> does not occur.
\<close>

fun after_last :: "bytes \<Rightarrow> bytes \<Rightarrow> bytes option" where
  "after_last t [] = (if t = [] then Some [] else None)"
| "after_last t (x # xs) =
     (case after_last t xs of
        Some r \<Rightarrow> Some r
      | None \<Rightarrow> if prefix t (x # xs) then Some (drop (length t) (x # xs)) else None)"

definition clear_to_last_line :: "bytes \<Rightarrow> bytes \<Rightarrow> bytes" where
  "clear_to_last_line t buf = (case after_last t buf of Some r \<Rightarrow> r | None \<Rightarrow> buf)"

section \<open>Concrete links and hosts\<close>

definition ascii :: "string \<Rightarrow> bytes" where
  "ascii cs = map of_char cs"

definition demo_port :: port where
  "demo_port = \<lparr>pname = ''/dev/ttyUSB0'', ptimeout = None, hist = []\<rparr>"

text \<open>A link with terminator \<open>t\<close>, buffer \<open>c\<close> and the default capacity.\<close>

definition demo_link :: "bytes \<Rightarrow> bytes \<Rightarrow> Buffer" where
  "demo_link t c =
     \<lparr>port = demo_port, content = c, size = 4096, disconnected = False, terminator = t\<rparr>"

text \<open>
  A host with three devices, all of which open and accept writes; only the last one
  answers, with the line \<^verbatim>\<open>OK\<close>.
\<close>

definition demo_env :: env where
  "demo_env =
     \<lparr>os_name = ''posix'',
      comports = [''ttyS0'', ''ttyUSB0'', ''ttyACM0''],
      open_exn = (\<lambda>name. None),
      write_exn = (\<lambda>name h data. None),
      readline_res = (\<lambda>name h. Inr (if name = ''/dev/ttyACM0'' then ascii ''OK'' @ [LF] else []))\<rparr>"

text \<open>A host on which nothing can be written: every write raises \<^verbatim>\<open>SerialException\<close>.\<close>

definition broken_env :: env where
  "broken_env = demo_env\<lparr>write_exn := (\<lambda>name h data. Some SerialException)\<rparr>"







text \<open>The delivery of one received chunk with the placeholder callback \<^verbatim>\<open>dummy\<close>.\<close>

definition deliver :: "bytes \<Rightarrow> Buffer \<Rightarrow> Buffer" where
  "deliver data s = readStoreBuffer (\<lambda>s'. s') s data"

text \<open>A host with a single device.\<close>

definition lonely_env :: env where
  "lonely_env = demo_env\<lparr>comports := [''ttyS0'']\<rparr>"

section \<open>Appending received chunks\<close>

lemma storeData_fits:
  "int (length (content s)) + int (length data) \<le> size s
   \<Longrightarrow> storeData s data = s\<lparr>content := content s @ data\<rparr>"
  by (simp add: storeData_def)

lemma storeData_overflow:
  "\<not> int (length (content s)) + int (length data) \<le> size s \<Longrightarrow> storeData s data = s"
  by (simp add: storeData_def)

lemma storeData_size: "size (storeData s data) = size s"
  by (simp add: storeData_def)

lemma storeData_bound:
  "int (length (content s)) \<le> size s
   \<Longrightarrow> int (length (content (storeData s data))) \<le> size s"
  by (simp add: storeData_def)

text \<open>
  Claim C1. For every received chunk: if the buffer length plus the chunk length is at
  most the capacity, the whole chunk is appended at the end of the buffer; otherwise the
  whole chunk is dropped and the buffer is unchanged. A buffer within its capacity stays
  within it, so of two chunks of which only the first fits, only the first is kept. In
  both cases the registered callback runs afterwards, on the buffer as the store left it.
\<close>

theorem readStoreBuffer_capacity:
  "(int (length (content s)) + int (length data) \<le> size s \<longrightarrow>
      readStoreBuffer h s data = h (s\<lparr>content := content s @ data\<rparr>)) \<and>
   (\<not> int (length (content s)) + int (length data) \<le> size s \<longrightarrow>
      readStoreBuffer h s data = h s) \<and>
   (int (length (content s)) \<le> size s \<longrightarrow>
      int (length (content (storeData s data))) \<le> size (storeData s data)) \<and>
   (int (length (content s)) + int (length c1) \<le> size s \<and>
    \<not> int (length (content s)) + int (length c1) + int (length c2) \<le> size s \<longrightarrow>
      readStoreBuffer h (storeData s c1) c2 = h (s\<lparr>content := content s @ c1\<rparr>))"
  by (simp add: readStoreBuffer_def storeData_def)

theorem readStoreBuffer_capacity_witness:
  "readStoreBuffer content ((demo_link [LF] [1, 2])\<lparr>size := 4\<rparr>) [3, 4] = [1, 2, 3, 4] \<and>
   readStoreBuffer content ((demo_link [LF] [1, 2])\<lparr>size := 4\<rparr>) [3, 4, 5] = [1, 2] \<and>
   readStoreBuffer content (storeData ((demo_link [LF] [1, 2])\<lparr>size := 4\<rparr>) [3, 4]) [9]
     = [1, 2, 3, 4]"
  using readStoreBuffer_capacity
          [of "(demo_link [LF] [1, 2])\<lparr>size := 4\<rparr>" "[3, 4]" content "[3, 4]" "[9]"]
        readStoreBuffer_capacity
          [of "(demo_link [LF] [1, 2])\<lparr>size := 4\<rparr>" "[3, 4, 5]" content "[3, 4]" "[9]"]
  by (simp add: demo_link_def storeData_def)

section \<open>Slices and the two scans\<close>

lemma u10: "unat (10 :: 8 word) = 10"
  by simp

lemma chr_py_newline: "(chr_py b = newline) = (b = LF)"
proof -
  have "(unat b = 10) = (unat b = unat (10 :: 8 word))" by (simp only: u10)
  also have "\<dots> = (b = 10)" by (rule word_unat_eq_iff [symmetric])
  finally show ?thesis by (simp only: chr_py_def newline_def LF_def list.inject simp_thms)
qed

lemma py_index_nonneg: "0 \<le> i \<Longrightarrow> py_index n i = min n (nat i)"
  by (simp add: py_index_def)

lemma py_index_length: "py_index n (int n) = n"
  by (simp add: py_index_def)

lemma take_min_length: "take (min (length xs) k) xs = take k xs"
  by (cases "k \<le> length xs") (simp_all add: min_def)

lemma drop_min_length: "drop (min (length xs) k) xs = drop k xs"
  by (cases "k \<le> length xs") (simp_all add: min_def)

lemma py_slice_front: "0 \<le> n \<Longrightarrow> py_slice xs 0 n = take (nat n) xs"
  by (simp add: py_slice_def py_index_nonneg take_min_length)

lemma py_slice_back: "py_slice xs n (int (length xs)) = drop (py_index (length xs) n) xs"
  by (simp add: py_slice_def py_index_length)

lemma py_slice_back_nat: "py_slice xs (int k) (int (length xs)) = drop k xs"
  by (simp add: py_slice_back py_index_nonneg drop_min_length)

lemma py_slice_back_Suc: "py_slice xs (int k + 1) (int (length xs)) = drop (Suc k) xs"
  using py_slice_back_nat [of xs "Suc k"] by (simp add: add.commute)


lemma readL_scan_mem: "readL_scan c js = Some i \<Longrightarrow> i \<in> set js \<and> c ! i = LF"
  by (induction js) (simp_all add: chr_py_newline split: if_splits)

lemma readL_scan_None: "readL_scan c js = None \<Longrightarrow> \<forall>i\<in>set js. c ! i \<noteq> LF"
  by (induction js) (simp_all add: chr_py_newline split: if_splits)

lemma readL_scan_Suc: "readL_scan (a # c) (map Suc js) = map_option Suc (readL_scan c js)"
  by (induction js) (simp_all add: chr_py_newline)

lemma readL_scan_append:
  "\<forall>i\<in>set js. i < length c \<Longrightarrow> readL_scan (c @ d) js = readL_scan c js"
  by (induction js) (simp_all add: chr_py_newline nth_append)

lemma upt_Suc_shift: "[0..<Suc n] = 0 # map Suc [0..<n]"
  by (simp add: upt_conv_Cons map_Suc_upt del: upt_Suc)

lemma readL_scan_first:
  "readL_scan c [0..<length c] =
     (if LF \<in> set c then Some (length (takeWhile (\<lambda>x. x \<noteq> LF) c)) else None)"
proof (induction c)
  case Nil
  show ?case by simp
next
  case (Cons a c)
  have "readL_scan (a # c) [0..<length (a # c)] =
          (if a = LF then Some 0 else map_option Suc (readL_scan c [0..<length c]))"
    by (simp add: upt_Suc_shift readL_scan_Suc chr_py_newline del: upt_Suc)
  with Cons show ?case by simp
qed


lemma readL_scan_last:
  "(case readL_scan c (rev [0..<length c]) of Some i \<Rightarrow> drop (Suc i) c | None \<Rightarrow> c) =
     (if LF \<in> set c then rev (takeWhile (\<lambda>x. x \<noteq> LF) (rev c)) else c)"
proof (induction c rule: rev_induct)
  case Nil
  show ?case by simp
next
  case (snoc a c)
  show ?case
  proof (cases "a = LF")
    case True
    then show ?thesis by (simp add: chr_py_newline)
  next
    case False
    have eq: "readL_scan (c @ [a]) (rev [0..<length c]) = readL_scan c (rev [0..<length c])"
      by (rule readL_scan_append) simp
    show ?thesis
    proof (cases "readL_scan c (rev [0..<length c])")
      case None
      then have "\<forall>i<length c. c ! i \<noteq> LF"
        using readL_scan_None [of c "rev [0..<length c]"] by simp
      then have "LF \<notin> set c" by (auto simp: in_set_conv_nth)
      with None False eq show ?thesis by (simp add: chr_py_newline)
    next
      case (Some i)
      then have "i < length c" using readL_scan_mem [of c "rev [0..<length c]" i] by simp
      moreover from Some have "LF \<in> set c"
        using readL_scan_mem [of c "rev [0..<length c]" i] \<open>i < length c\<close> nth_mem by fastforce
      ultimately show ?thesis using Some False eq snoc by (simp add: chr_py_newline)
    qed
  qed
qed

lemma readL_found:
  assumes "LF \<in> set (content s)"
  shows "readL s =
    ((case decode (takeWhile (\<lambda>x. x \<noteq> LF) (content s)) of Some t \<Rightarrow> t | None \<Rightarrow> not_a_string),
     s\<lparr>content := tl (dropWhile (\<lambda>x. x \<noteq> LF) (content s))\<rparr>)"
proof -
  let ?k = "length (takeWhile (\<lambda>x. x \<noteq> LF) (content s))"
  have a: "take ?k (content s) = takeWhile (\<lambda>x. x \<noteq> LF) (content s)"
    by (rule takeWhile_eq_take [symmetric])
  have b: "drop (Suc ?k) (content s) = tl (dropWhile (\<lambda>x. x \<noteq> LF) (content s))"
    by (simp add: dropWhile_eq_drop drop_Suc tl_drop)
  show ?thesis using assms a b
    by (simp add: readL_def readL_scan_first py_slice_front py_slice_back_Suc del: upt_Suc)
qed

lemma readL_missing:
  "LF \<notin> set (content s) \<Longrightarrow> readL s = (not_enough_data, s)"
  by (simp add: readL_def readL_scan_first)

lemma clearBuffer_body_line:
  "clearBuffer_body s True =
     (if LF \<in> set (content s)
      then s\<lparr>content := rev (takeWhile (\<lambda>x. x \<noteq> LF) (rev (content s)))\<rparr> else s)"
proof -
  have "content (clearBuffer_body s True) =
          (case readL_scan (content s) (rev [0..<length (content s)]) of
             Some i \<Rightarrow> drop (Suc i) (content s) | None \<Rightarrow> content s)"
    by (simp add: clearBuffer_body_def py_slice_back_Suc split: option.splits)
  then have c: "content (clearBuffer_body s True) =
      (if LF \<in> set (content s) then rev (takeWhile (\<lambda>x. x \<noteq> LF) (rev (content s))) else content s)"
    by (simp only: readL_scan_last)
  have "clearBuffer_body s True = s\<lparr>content := content (clearBuffer_body s True)\<rparr>"
    by (simp add: clearBuffer_body_def split: option.splits)
  with c show ?thesis by (simp split: if_splits)
qed

lemma clearBuffer_line:
  "clearBuffer flush s True =
     (if LF \<in> set (content (flush s))
      then (flush s)\<lparr>content := rev (takeWhile (\<lambda>x. x \<noteq> LF) (rev (content (flush s))))\<rparr>
      else flush s)"
  by (simp only: clearBuffer_def clearBuffer_body_line)

lemma clearBuffer_all: "clearBuffer flush s False = (flush s)\<lparr>content := []\<rparr>"
  by (simp add: clearBuffer_def clearBuffer_body_def)


lemma suffix_py_slice: "suffix (py_slice xs n (int (length xs))) xs"
  by (simp add: py_slice_back suffix_drop)

section \<open>Reading bytes\<close>

text \<open>
  Claim C2. For every \<open>n \<ge> 0\<close>: if the buffer holds fewer than \<open>n\<close> bytes,
  \<^verbatim>\<open>readB(n)\<close> returns the sentinel \<^verbatim>\<open>"not enough data"\<close> and leaves the buffer as it
  is, so that the same call repeated at once returns the sentinel again; otherwise it
  returns exactly the first \<open>n\<close> bytes, in order, and the buffer keeps the bytes after
  them.
\<close>

theorem readB_fifo:
  "0 \<le> n \<Longrightarrow>
   (int (length (content s)) < n \<longrightarrow>
      readB s n = (PyStr not_enough_data, s) \<and>
      readB (snd (readB s n)) n = (PyStr not_enough_data, s)) \<and>
   (\<not> int (length (content s)) < n \<longrightarrow>
      readB s n = (PyBytes (take (nat n) (content s)), s\<lparr>content := drop (nat n) (content s)\<rparr>) \<and>
      length (take (nat n) (content s)) = nat n \<and>
      take (nat n) (content s) @ drop (nat n) (content s) = content s)"
proof -
  assume n: "0 \<le> n"
  have rest: "py_slice (content s) n (int (length (content s))) = drop (nat n) (content s)"
    using py_slice_back_nat [of "content s" "nat n"] n by simp
  show ?thesis using n rest
    by (simp add: readB_def py_slice_front)
qed

theorem readB_fifo_witness:
  "readB (demo_link [LF] [1, 2, 3]) 2 = (PyBytes [1, 2], demo_link [LF] [3]) \<and>
   readB (demo_link [LF] [1, 2, 3]) 4 = (PyStr not_enough_data, demo_link [LF] [1, 2, 3]) \<and>
   readB (snd (readB (demo_link [LF] [1, 2, 3]) 4)) 4
     = (PyStr not_enough_data, demo_link [LF] [1, 2, 3])"
  using readB_fifo [of 2 "demo_link [LF] [1, 2, 3]"] readB_fifo [of 4 "demo_link [LF] [1, 2, 3]"]
  by (simp add: demo_link_def)

section \<open>The consumer only removes from the front\<close>

text \<open>
  Claim C10, as amended. \<^verbatim>\<open>readB\<close> (for any integer argument) and \<^verbatim>\<open>readL\<close> leave a
  buffer that is a suffix of the buffer before. \<^verbatim>\<open>clearBuffer\<close>, in both modes, first
  lets the pending GUI events run, which can append chunks received earlier; it leaves a
  suffix of the buffer as those events left it, and so a suffix of the buffer before the
  call when no delivery is pending. The operations themselves only drop bytes from the
  front and never reorder, repeat or insert a byte.
\<close>

theorem consumer_suffix:
  "suffix (content (snd (readB s n))) (content s) \<and>
   suffix (content (snd (readL s))) (content s) \<and>
   suffix (content (clearBuffer flush s clearLine)) (content (flush s)) \<and>
   (flush s = s \<longrightarrow> suffix (content (clearBuffer flush s clearLine)) (content s))"
proof -
  have "suffix (content (snd (readB s n))) (content s)"
    by (simp add: readB_def suffix_py_slice)
  moreover have "suffix (content (snd (readL s))) (content s)"
    by (simp add: readL_def suffix_py_slice split: option.splits)
  moreover have c: "suffix (content (clearBuffer flush s clearLine)) (content (flush s))"
    by (simp add: clearBuffer_def clearBuffer_body_def suffix_py_slice split: option.splits)
  moreover have "flush s = s \<longrightarrow> suffix (content (clearBuffer flush s clearLine)) (content s)"
    using c by auto
  ultimately show ?thesis by simp
qed

theorem consumer_suffix_witness:
  "content (snd (readB (demo_link [LF] [1, 2, 3]) (- 1))) = [3] \<and>
   suffix [3] (content (demo_link [LF] [1, 2, 3])) \<and>
   content (snd (readL (demo_link [LF] [1, LF, 3]))) = [3] \<and>
   (\<lambda>s. s) (demo_link [LF] [1, LF, 3]) = demo_link [LF] [1, LF, 3] \<and>
   content (clearBuffer (\<lambda>s. s) (demo_link [LF] [1, LF, 3]) True) = [3] \<and>
   suffix (content (clearBuffer (\<lambda>s. s) (demo_link [LF] [1, LF, 3]) True))
     (content (demo_link [LF] [1, LF, 3])) \<and>
   content (clearBuffer (\<lambda>s. s) (demo_link [LF] [1, LF, 3]) False) = []"
proof -
  have a: "content (snd (readB (demo_link [LF] [1, 2, 3]) (- 1))) = [3]"
    by (simp add: readB_def py_slice_def py_index_def demo_link_def)
  have b: "content (snd (readL (demo_link [LF] [1, LF, 3]))) = [3]"
    by (simp add: readL_found demo_link_def LF_def)
  have c: "content (clearBuffer (\<lambda>s. s) (demo_link [LF] [1, LF, 3]) True) = [3]"
    by (simp add: clearBuffer_line demo_link_def LF_def)
  have d: "content (clearBuffer (\<lambda>s. s) (demo_link [LF] [1, LF, 3]) False) = []"
    by (simp add: clearBuffer_all)
  show ?thesis
    using consumer_suffix [of "demo_link [LF] [1, 2, 3]" "- 1" "\<lambda>s. s" True]
          consumer_suffix [of "demo_link [LF] [1, LF, 3]" 0 "\<lambda>s. s" True] a b c d
    by (simp add: demo_link_def)
qed

text \<open>
  Claim C10, as stated, has \<^verbatim>\<open>clearBuffer\<close> leave a suffix of the buffer before the call.
  With the buffer \<^verbatim>\<open>b"ab\ncd"\<close> and the delivery of the chunk \<^verbatim>\<open>b"x\ny"\<close> pending, the
  GUI calls at the start of \<^verbatim>\<open>clearBuffer(True)\<close> run the delivery, the buffer becomes
  \<^verbatim>\<open>b"ab\ncdx\ny"\<close>, and the call leaves \<^verbatim>\<open>b"y"\<close>, which is no suffix of \<^verbatim>\<open>b"ab\ncd"\<close>.
\<close>

theorem clearBuffer_pending_counterexample:
  "content (clearBuffer (deliver (ascii ''x'' @ [LF] @ ascii ''y''))
              (demo_link [LF] (ascii ''ab'' @ [LF] @ ascii ''cd'')) True) = ascii ''y'' \<and>
   \<not> suffix (content (clearBuffer (deliver (ascii ''x'' @ [LF] @ ascii ''y''))
                        (demo_link [LF] (ascii ''ab'' @ [LF] @ ascii ''cd'')) True))
             (content (demo_link [LF] (ascii ''ab'' @ [LF] @ ascii ''cd'')))"
proof -
  have a: "content (clearBuffer (deliver (ascii ''x'' @ [LF] @ ascii ''y''))
              (demo_link [LF] (ascii ''ab'' @ [LF] @ ascii ''cd'')) True) = ascii ''y''"
    by (simp add: clearBuffer_line deliver_def readStoreBuffer_def storeData_def demo_link_def
          ascii_def LF_def)
  have b: "\<not> suffix (ascii ''y'') (ascii ''ab'' @ [LF] @ ascii ''cd'')"
    by (simp add: ascii_def LF_def suffix_Cons)
  from a b show ?thesis by (simp add: demo_link_def)
qed

section \<open>Lines: the first and the last newline\<close>

lemma split_at_first:
  "x \<in> set c \<Longrightarrow> c = takeWhile (\<lambda>y. y \<noteq> x) c @ x # tl (dropWhile (\<lambda>y. y \<noteq> x) c)"
proof -
  assume "x \<in> set c"
  then have "dropWhile (\<lambda>y. y \<noteq> x) c \<noteq> []" by simp
  moreover have "dropWhile (\<lambda>y. y \<noteq> x) c \<noteq> [] \<Longrightarrow> hd (dropWhile (\<lambda>y. y \<noteq> x) c) = x"
    using hd_dropWhile [of "\<lambda>y. y \<noteq> x" c] by simp
  ultimately have "dropWhile (\<lambda>y. y \<noteq> x) c = x # tl (dropWhile (\<lambda>y. y \<noteq> x) c)"
    by (metis list.collapse)
  then show ?thesis using takeWhile_dropWhile_id [of "\<lambda>y. y \<noteq> x" c] by simp
qed

lemma split_at_last:
  "x \<in> set c \<Longrightarrow>
   c = rev (tl (dropWhile (\<lambda>y. y \<noteq> x) (rev c))) @ x # rev (takeWhile (\<lambda>y. y \<noteq> x) (rev c))"
proof -
  assume "x \<in> set c"
  then have "x \<in> set (rev c)" by simp
  then have "rev c = takeWhile (\<lambda>y. y \<noteq> x) (rev c) @ x # tl (dropWhile (\<lambda>y. y \<noteq> x) (rev c))"
    by (rule split_at_first)
  then have "rev (rev c) = rev (takeWhile (\<lambda>y. y \<noteq> x) (rev c) @ x # tl (dropWhile (\<lambda>y. y \<noteq> x) (rev c)))"
    by simp
  then show ?thesis by simp
qed

lemma kept_no_LF: "x \<notin> set (rev (takeWhile (\<lambda>y. y \<noteq> x) (rev c)))"
  using set_takeWhileD [of x "\<lambda>y. y \<noteq> x" "rev c"] by auto

lemma after_last_LF:
  "after_last [LF] c =
     (if LF \<in> set c then Some (rev (takeWhile (\<lambda>x. x \<noteq> LF) (rev c))) else None)"
proof (induction c)
  case Nil
  show ?case by simp
next
  case (Cons x xs)
  show ?case
  proof (cases "LF \<in> set xs")
    case True
    then have "takeWhile (\<lambda>x. x \<noteq> LF) (rev xs @ [x]) = takeWhile (\<lambda>x. x \<noteq> LF) (rev xs)"
      by (intro takeWhile_append1 [of LF]) simp_all
    with True Cons show ?thesis by simp
  next
    case False
    then have "takeWhile (\<lambda>x. x \<noteq> LF) (rev xs @ [x]) = rev xs @ takeWhile (\<lambda>x. x \<noteq> LF) [x]"
      by (intro takeWhile_append2) auto
    with False Cons show ?thesis by auto
  qed
qed

lemma clear_to_last_line_LF:
  "clear_to_last_line [LF] c =
     (if LF \<in> set c then rev (takeWhile (\<lambda>x. x \<noteq> LF) (rev c)) else c)"
  by (simp add: clear_to_last_line_def after_last_LF)


section \<open>Reading a line\<close>

text \<open>
  Claim C3. On a link with the default line-feed terminator (and on any other, the code
  never looks at the stored terminator): if the buffer contains a line-feed byte,
  \<^verbatim>\<open>readL\<close> removes the bytes up to and including the first one and returns the bytes
  before it decoded as text; if they cannot be decoded it returns the sentinel
  \<^verbatim>\<open>"Read data isn't a string"\<close> and the bytes are removed all the same; if there is no
  line-feed byte it returns \<^verbatim>\<open>"not enough data"\<close> and the buffer stays as it is. The
  witness evaluates the buffer \<^verbatim>\<open>b"ab\ncd"\<close> of the specification, an undecodable line
  and a buffer without terminator.
\<close>

theorem readL_first_line:
  "(LF \<in> set (content s) \<longrightarrow>
      content s = takeWhile (\<lambda>x. x \<noteq> LF) (content s) @ LF # tl (dropWhile (\<lambda>x. x \<noteq> LF) (content s)) \<and>
      snd (readL s) = s\<lparr>content := tl (dropWhile (\<lambda>x. x \<noteq> LF) (content s))\<rparr> \<and>
      (\<forall>t. decode (takeWhile (\<lambda>x. x \<noteq> LF) (content s)) = Some t \<longrightarrow> fst (readL s) = t) \<and>
      (decode (takeWhile (\<lambda>x. x \<noteq> LF) (content s)) = None \<longrightarrow> fst (readL s) = not_a_string)) \<and>
   (LF \<notin> set (content s) \<longrightarrow> readL s = (not_enough_data, s))"
proof (cases "LF \<in> set (content s)")
  case True
  then show ?thesis using split_at_first [of LF "content s"]
    by (simp add: readL_found)
next
  case False
  then show ?thesis by (simp add: readL_missing)
qed

theorem readL_first_line_witness:
  "readL (demo_link [LF] (ascii ''ab'' @ [LF] @ ascii ''cd''))
     = (str_lit ''ab'', demo_link [LF] (ascii ''cd'')) \<and>
   decode [255] = None \<and>
   readL (demo_link [LF] ([255, LF] @ ascii ''cd'')) = (not_a_string, demo_link [LF] (ascii ''cd'')) \<and>
   readL (demo_link [LF] (ascii ''abc'')) = (not_enough_data, demo_link [LF] (ascii ''abc''))"
proof -
  have a: "decode (ascii ''ab'') = Some (str_lit ''ab'')" "decode [255] = None"
    by (simp_all add: ascii_def decode_def str_lit_def)
  have b: "readL (demo_link [LF] (ascii ''ab'' @ [LF] @ ascii ''cd''))
     = (str_lit ''ab'', demo_link [LF] (ascii ''cd''))"
    using readL_first_line [of "demo_link [LF] (ascii ''ab'' @ [LF] @ ascii ''cd'')"] a
    by (simp add: demo_link_def ascii_def LF_def prod_eq_iff)
  have c: "readL (demo_link [LF] ([255, LF] @ ascii ''cd'')) = (not_a_string, demo_link [LF] (ascii ''cd''))"
    using readL_first_line [of "demo_link [LF] ([255, LF] @ ascii ''cd'')"] a
    by (simp add: demo_link_def ascii_def LF_def prod_eq_iff)
  have d: "readL (demo_link [LF] (ascii ''abc'')) = (not_enough_data, demo_link [LF] (ascii ''abc''))"
    using readL_first_line [of "demo_link [LF] (ascii ''abc'')"]
    by (simp add: demo_link_def ascii_def LF_def)
  from a b c d show ?thesis by simp
qed

section \<open>Clearing the buffer\<close>

text \<open>
  What \<^verbatim>\<open>clearBuffer\<close> does, on every link: without \<^verbatim>\<open>clearLine\<close> it empties the buffer;
  with it, it cuts after the last line-feed byte, whatever terminator the link stores.
\<close>

lemma clearBuffer_line_feed:
  "clearBuffer flush s False = (flush s)\<lparr>content := []\<rparr> \<and>
   clearBuffer flush s True
     = (flush s)\<lparr>content := clear_to_last_line [LF] (content (flush s))\<rparr>"
  by (simp add: clearBuffer_all clearBuffer_line clear_to_last_line_LF)

lemma clearBuffer_body_ignores_terminator:
  "clearBuffer_body (s\<lparr>terminator := t\<rparr>) clearLine
     = (clearBuffer_body s clearLine)\<lparr>terminator := t\<rparr>"
  by (simp add: clearBuffer_body_def split: option.splits)

text \<open>
  Claim C5 says that \<^verbatim>\<open>clearBuffer(False)\<close> empties the buffer and that
  \<^verbatim>\<open>clearBuffer(True)\<close> removes everything up to and including the last occurrence of
  the terminator. The code, with no GUI event pending: on a link with the default
  terminator the buffers \<^verbatim>\<open>b"ab\ncd\nef"\<close> and \<^verbatim>\<open>b"abc"\<close> of the specification come out
  as claimed, \<^verbatim>\<open>b"ef"\<close> and \<^verbatim>\<open>b"abc"\<close>. On a link created with the terminator \<^verbatim>\<open>b";"\<close>
  and holding \<^verbatim>\<open>b"ab;cd"\<close>, removing everything up to the last terminator would leave
  \<^verbatim>\<open>b"cd"\<close>; \<^verbatim>\<open>clearBuffer(True)\<close> compares with the newline character, finds none and
  leaves \<^verbatim>\<open>b"ab;cd"\<close>.
\<close>

theorem clearBuffer_ignores_terminator:
  "clearBuffer (\<lambda>s. s) (demo_link [LF] (ascii ''ab'' @ [LF] @ ascii ''cd'' @ [LF] @ ascii ''ef'')) True
     = demo_link [LF] (ascii ''ef'') \<and>
   clearBuffer (\<lambda>s. s) (demo_link [LF] (ascii ''ab'' @ [LF] @ ascii ''cd'' @ [LF] @ ascii ''ef'')) False
     = demo_link [LF] [] \<and>
   clearBuffer (\<lambda>s. s) (demo_link [LF] (ascii ''abc'')) True = demo_link [LF] (ascii ''abc'') \<and>
   terminator (demo_link (ascii '';'') (ascii ''ab;cd'')) = ascii '';'' \<and>
   clear_to_last_line (ascii '';'') (ascii ''ab;cd'') = ascii ''cd'' \<and>
   content (clearBuffer (\<lambda>s. s) (demo_link (ascii '';'') (ascii ''ab;cd'')) True) = ascii ''ab;cd'' \<and>
   content (clearBuffer (\<lambda>s. s) (demo_link (ascii '';'') (ascii ''ab;cd'')) True)
     \<noteq> clear_to_last_line (terminator (demo_link (ascii '';'') (ascii ''ab;cd'')))
          (content (demo_link (ascii '';'') (ascii ''ab;cd'')))"
proof -
  have d1: "clearBuffer (\<lambda>s. s) (demo_link [LF] (ascii ''ab'' @ [LF] @ ascii ''cd'' @ [LF] @ ascii ''ef'')) True
     = demo_link [LF] (ascii ''ef'')"
    by (simp add: clearBuffer_line demo_link_def ascii_def LF_def)
  have d2: "clearBuffer (\<lambda>s. s) (demo_link [LF] (ascii ''ab'' @ [LF] @ ascii ''cd'' @ [LF] @ ascii ''ef'')) False
     = demo_link [LF] []"
    by (simp add: clearBuffer_all demo_link_def)
  have d3: "clearBuffer (\<lambda>s. s) (demo_link [LF] (ascii ''abc'')) True = demo_link [LF] (ascii ''abc'')"
    by (simp add: clearBuffer_line demo_link_def ascii_def LF_def)
  have "LF \<notin> set (ascii ''ab;cd'')" by (simp add: ascii_def LF_def)
  then have a: "content (clearBuffer (\<lambda>s. s) (demo_link (ascii '';'') (ascii ''ab;cd'')) True)
                  = ascii ''ab;cd''"
    by (simp add: clearBuffer_line demo_link_def)
  have b: "clear_to_last_line (ascii '';'') (ascii ''ab;cd'') = ascii ''cd''"
    by (simp add: clear_to_last_line_def ascii_def)
  have c: "ascii ''ab;cd'' \<noteq> ascii ''cd''" by (simp add: ascii_def)
  from d1 d2 d3 a b c show ?thesis by (simp add: demo_link_def)
qed

section \<open>The terminator given to the constructor\<close>

text \<open>
  Neither \<^verbatim>\<open>readL\<close> nor \<^verbatim>\<open>writeL\<close> reads the terminator stored in the buffer: changing
  it changes nothing but the stored value.
\<close>

lemma readL_ignores_terminator:
  "readL (s\<lparr>terminator := t\<rparr>) = (fst (readL s), (snd (readL s))\<lparr>terminator := t\<rparr>)"
  by (simp add: readL_def split: option.splits)

lemma writeL_ignores_terminator:
  "writeL e (s\<lparr>terminator := t\<rparr>) str
     = (fst (writeL e s str), (fst (snd (writeL e s str)))\<lparr>terminator := t\<rparr>, snd (snd (writeL e s str)))"
  by (simp add: writeL_def try_port_write_def split: option.splits sum.splits)

text \<open>
  Claim C4 says that the terminator \<open>t\<close> given to the constructor determines the line
  boundaries. The code at \<open>t = b";"\<close>: the constructor stores \<open>t\<close>; \<^verbatim>\<open>readL\<close> on the
  buffer \<^verbatim>\<open>b"ab;cd\nef"\<close> returns \<^verbatim>\<open>"ab;cd"\<close> and leaves \<^verbatim>\<open>b"ef"\<close>, where the claim has
  \<^verbatim>\<open>"ab"\<close> and \<^verbatim>\<open>b"cd\nef"\<close>; \<^verbatim>\<open>writeL("hi")\<close> sends \<^verbatim>\<open>b"hi\n"\<close>, where the claim has
  \<^verbatim>\<open>b"hi;"\<close>.
\<close>

theorem terminator_ignored:
  "sPort_init demo_env (demo_link [LF] []) ''/dev/ttyUSB0'' (ascii '';'')
     = Inr (demo_link (ascii '';'') []) \<and>
   readL (demo_link (ascii '';'') (ascii ''ab;cd'' @ [LF] @ ascii ''ef''))
     = (str_lit ''ab;cd'', demo_link (ascii '';'') (ascii ''ef'')) \<and>
   writeL demo_env (demo_link (ascii '';'') []) (str_lit ''hi'')
     = (None,
        (demo_link (ascii '';'') [])\<lparr>port := demo_port\<lparr>hist := [Wr (ascii ''hi'' @ [LF])]\<rparr>\<rparr>,
        [PortWrite ''/dev/ttyUSB0'' (ascii ''hi'' @ [LF])])"
proof -
  have a: "sPort_init demo_env (demo_link [LF] []) ''/dev/ttyUSB0'' (ascii '';'')
     = Inr (demo_link (ascii '';'') [])"
    by (simp add: sPort_init_def serPort_def serPort_body_def serPort_except_def Serial_open_def
          demo_env_def demo_link_def demo_port_def)
  have b: "readL (demo_link (ascii '';'') (ascii ''ab;cd'' @ [LF] @ ascii ''ef''))
     = (str_lit ''ab;cd'', demo_link (ascii '';'') (ascii ''ef''))"
    by (simp add: readL_found ascii_def LF_def decode_def str_lit_def demo_link_def)
  have c: "encode (str_lit ''hi'' @ newline) = Some (ascii ''hi'' @ [LF])"
    by (simp add: encode_def str_lit_def newline_def utf8_encode_cp_def ascii_def LF_def)
  have d: "writeL demo_env (demo_link (ascii '';'') []) (str_lit ''hi'')
     = (None,
        (demo_link (ascii '';'') [])\<lparr>port := demo_port\<lparr>hist := [Wr (ascii ''hi'' @ [LF])]\<rparr>\<rparr>,
        [PortWrite ''/dev/ttyUSB0'' (ascii ''hi'' @ [LF])])"
    by (simp add: writeL_def c try_port_write_def port_write_def demo_env_def demo_link_def
          demo_port_def)
  from a b d show ?thesis by simp
qed

section \<open>Writing on a closed or failing port\<close>

text \<open>
  Claim C6. While the link is disconnected, \<^verbatim>\<open>write\<close> and \<^verbatim>\<open>writeL\<close> return without
  calling the port's \<^verbatim>\<open>write\<close> and without raising: the buffer object, port included,
  is unchanged and the only event is the printed warning. While it is connected, an
  I/O failure of the port's \<^verbatim>\<open>write\<close> (an \<^verbatim>\<open>OSError\<close>, which includes pyserial's
  \<^verbatim>\<open>SerialException\<close>) is caught: the call returns normally after printing a warning.
\<close>

theorem write_never_raises_on_io_failure:
  "(disconnected s \<longrightarrow>
      write_py e s data = (None, s, [Print closed_warning]) \<and>
      writeL e s str = (None, s, [Print closed_warning])) \<and>
   (\<not> disconnected s \<and> port_write e (port s) data = Inl x \<and> is_OSError x \<longrightarrow>
      write_py e s data = (None, s, [PortWrite (pname (port s)) data, Print write_warning])) \<and>
   (\<not> disconnected s \<and> encode (str @ newline) = Some data \<and>
    port_write e (port s) data = Inl x \<and> is_OSError x \<longrightarrow>
      writeL e s str = (None, s, [PortWrite (pname (port s)) data, Print write_warning]))"
  by (simp add: write_py_def writeL_def try_port_write_def)

theorem write_never_raises_on_io_failure_witness:
  "write_py demo_env ((demo_link [LF] [])\<lparr>disconnected := True\<rparr>) (ascii ''hi'')
     = (None, (demo_link [LF] [])\<lparr>disconnected := True\<rparr>, [Print closed_warning]) \<and>
   writeL demo_env ((demo_link [LF] [])\<lparr>disconnected := True\<rparr>) (str_lit ''hi'')
     = (None, (demo_link [LF] [])\<lparr>disconnected := True\<rparr>, [Print closed_warning]) \<and>
   write_py broken_env (demo_link [LF] []) (ascii ''hi'' @ [LF])
     = (None, demo_link [LF] [],
        [PortWrite ''/dev/ttyUSB0'' (ascii ''hi'' @ [LF]), Print write_warning]) \<and>
   writeL broken_env (demo_link [LF] []) (str_lit ''hi'')
     = (None, demo_link [LF] [],
        [PortWrite ''/dev/ttyUSB0'' (ascii ''hi'' @ [LF]), Print write_warning])"
proof -
  have c: "encode (str_lit ''hi'' @ newline) = Some (ascii ''hi'' @ [LF])"
    by (simp add: encode_def str_lit_def newline_def utf8_encode_cp_def ascii_def LF_def)
  have w: "port_write broken_env (port (demo_link [LF] [])) (ascii ''hi'' @ [LF]) = Inl SerialException"
    by (simp add: port_write_def broken_env_def demo_env_def)
  have o: "is_OSError SerialException" by (simp add: is_OSError_def)
  have n: "\<not> disconnected (demo_link [LF] [])" "pname (port (demo_link [LF] [])) = ''/dev/ttyUSB0''"
    by (simp_all add: demo_link_def demo_port_def)
  show ?thesis
    using write_never_raises_on_io_failure
            [of "(demo_link [LF] [])\<lparr>disconnected := True\<rparr>" demo_env "ascii ''hi''"
                "str_lit ''hi''" SerialException]
          write_never_raises_on_io_failure
            [of "demo_link [LF] []" broken_env "ascii ''hi'' @ [LF]" "str_lit ''hi''" SerialException]
          c w o n
    by simp
qed


section \<open>The candidate loop of \<^verbatim>\<open>serPort\<close>\<close>






















section \<open>Reconnecting\<close>

text \<open>
  With the module as it is, an attempt to reopen never binds a new port: with two or
  more devices it raises \<^verbatim>\<open>NameError\<close>, with fewer it schedules itself again.
\<close>

lemma reopen_unbound:
  "reopen Serial_unbound e s =
     (if 1 < length (comports e) then (Some NameError, s, []) else (None, s, [After 1 Reopen]))"
  by (simp add: reopen_def Serial_unbound_def)

lemma connection_lost_unbound:
  "connection_lost Serial_unbound e s =
     (if 1 < length (comports e) then (Some NameError, s, [Print lost_message])
      else (None, s\<lparr>disconnected := True\<rparr>, [Print lost_message, After 1 Reopen]))"
  by (simp add: connection_lost_def reopen_unbound)

text \<open>
  Claim C8 says that after a connection loss the link state is disconnected, and that a
  successful attempt rebinds the connection, makes the state connected and starts a new
  reader. The code on a host with three devices: \<^verbatim>\<open>connection_lost\<close> raises
  \<^verbatim>\<open>NameError\<close> out of \<^verbatim>\<open>reopen\<close>, before the flag is set, so the link still counts as
  connected, with the old port and no new reader; the same happens to a scheduled
  \<^verbatim>\<open>reopen\<close>. With a single device the flag is set and \<^verbatim>\<open>reopen\<close> is scheduled. And if
  the name \<^verbatim>\<open>Serial\<close> were bound to \<^verbatim>\<open>serial.Serial\<close>, an attempt that succeeds inside
  \<^verbatim>\<open>connection_lost\<close> would rebind the port and start the reader, and the flag would
  then be set to disconnected, after the reconnection.
\<close>

theorem reconnect_never_succeeds:
  "connection_lost Serial_unbound demo_env (demo_link [LF] [])
     = (Some NameError, demo_link [LF] [], [Print lost_message]) \<and>
   disconnected_query (demo_link [LF] []) = False \<and>
   connection_lost Serial_unbound lonely_env (demo_link [LF] [])
     = (None, (demo_link [LF] [])\<lparr>disconnected := True\<rparr>,
        [Print lost_message, After 1 Reopen]) \<and>
   reopen Serial_unbound demo_env ((demo_link [LF] [])\<lparr>disconnected := True\<rparr>)
     = (Some NameError, (demo_link [LF] [])\<lparr>disconnected := True\<rparr>, []) \<and>
   connection_lost (Serial_class demo_env) demo_env (demo_link [LF] [])
     = (None,
        (demo_link [LF] [])\<lparr>port := \<lparr>pname = ''/dev/ttyUSB0'', ptimeout = None, hist = []\<rparr>,
                             disconnected := True\<rparr>,
        [Print lost_message,
         ReaderStart \<lparr>pname = ''/dev/ttyUSB0'', ptimeout = None, hist = []\<rparr>]) \<and>
   disconnected_query (fst (snd (connection_lost (Serial_class demo_env) demo_env
                                   (demo_link [LF] [])))) = True"
proof -
  have len: "length (comports demo_env) = 3" "length (comports lonely_env) = 1"
    by (simp_all add: lonely_env_def demo_env_def)
  have a: "connection_lost Serial_unbound demo_env (demo_link [LF] [])
     = (Some NameError, demo_link [LF] [], [Print lost_message])"
    by (simp add: connection_lost_unbound len)
  have b: "disconnected_query (demo_link [LF] []) = False"
    by (simp add: disconnected_query_def demo_link_def)
  have c: "connection_lost Serial_unbound lonely_env (demo_link [LF] [])
     = (None, (demo_link [LF] [])\<lparr>disconnected := True\<rparr>,
        [Print lost_message, After 1 Reopen])"
    by (simp add: connection_lost_unbound len)
  have d: "reopen Serial_unbound demo_env ((demo_link [LF] [])\<lparr>disconnected := True\<rparr>)
     = (Some NameError, (demo_link [LF] [])\<lparr>disconnected := True\<rparr>, [])"
    by (simp add: reopen_unbound len)
  have e: "connection_lost (Serial_class demo_env) demo_env (demo_link [LF] [])
     = (None,
        (demo_link [LF] [])\<lparr>port := \<lparr>pname = ''/dev/ttyUSB0'', ptimeout = None, hist = []\<rparr>,
                             disconnected := True\<rparr>,
        [Print lost_message,
         ReaderStart \<lparr>pname = ''/dev/ttyUSB0'', ptimeout = None, hist = []\<rparr>])"
    by (simp add: connection_lost_def reopen_def Serial_class_def Serial_open_def demo_env_def)
  from a b c d e show ?thesis by (simp add: disconnected_query_def)
qed


end
